theory Spec2Isabelle
  imports Main "HOL-Library.Word"
begin

unbundle bit_operations_syntax

section \<open>Common defines between kernel and userspace (SNTKernelCommon.h)\<close>

text \<open>
  The header declares the wire contract of the driver: a length constant, the method
  selectors of the user client, the action tags, the response-validity macro and the
  message struct. C enumerators are constants of type \<open>int\<close>, which is 32 bits wide on
  every platform the driver builds for; they are modelled as \<open>32 word\<close> and read as
  signed integers with \<open>sint\<close>.
\<close>

type_synonym c_int = "32 word"

type_synonym byte = "8 word"

subsection \<open>Length of a vnode id string\<close>

text \<open>\<^verbatim>\<open>#define MAX_VNODE_ID_STR 21  // digits in UINT64_MAX + 1 for NULL-terminator\<close>\<close>

definition MAX_VNODE_ID_STR :: nat where
  "MAX_VNODE_ID_STR = 21"

text \<open>\<^verbatim>\<open>UINT64_MAX\<close> of \<^verbatim>\<open><stdint.h>\<close>, which the comment of the macro refers to.\<close>

definition UINT64_MAX :: "64 word" where
  "UINT64_MAX = 18446744073709551615"

text \<open>
  The decimal digits of an unsigned integer, most significant first, as \<^verbatim>\<open>printf\<close>
  renders a \<^verbatim>\<open>uint64_t\<close> with \<^verbatim>\<open>%llu\<close>: the string whose length the macro bounds.
\<close>

fun decimal :: "nat \<Rightarrow> string" where
  "decimal n =
     (if n < 10 then [char_of (48 + n)]
      else decimal (n div 10) @ [char_of (48 + n mod 10)])"

declare decimal.simps [simp del]

subsection \<open>Methods supported by the driver\<close>

text \<open>
  \<^verbatim>\<open>enum SantaDriverMethods\<close> gives no enumerator an initialiser. By the rule of C the
  first enumerator is 0 and every later one is its predecessor plus one; the
  definitions below follow the declaration line by line.
\<close>

definition kSantaUserClientOpen :: c_int where
  "kSantaUserClientOpen = 0"

definition kSantaUserClientAllowBinary :: c_int where
  "kSantaUserClientAllowBinary = kSantaUserClientOpen + 1"

definition kSantaUserClientDenyBinary :: c_int where
  "kSantaUserClientDenyBinary = kSantaUserClientAllowBinary + 1"

definition kSantaUserClientClearCache :: c_int where
  "kSantaUserClientClearCache = kSantaUserClientDenyBinary + 1"

definition kSantaUserClientCacheCount :: c_int where
  "kSantaUserClientCacheCount = kSantaUserClientClearCache + 1"

text \<open>
  The last enumerator stands below the comment "Any methods supported by the driver
  should be added above this line to ensure this remains the count of methods".
\<close>

definition kSantaUserClientNMethods :: c_int where
  "kSantaUserClientNMethods = kSantaUserClientCacheCount + 1"

text \<open>The enumerators above that line, in the order of the declaration.\<close>

definition SantaDriverMethods :: "c_int list" where
  "SantaDriverMethods =
     [kSantaUserClientOpen, kSantaUserClientAllowBinary, kSantaUserClientDenyBinary,
      kSantaUserClientClearCache, kSantaUserClientCacheCount]"

subsection \<open>Actions passed down the data queue and in response methods\<close>

text \<open>\<^verbatim>\<open>santa_action_t\<close>: every enumerator has an explicit value.\<close>

type_synonym santa_action_t = c_int

definition ACTION_UNSET :: santa_action_t where
  "ACTION_UNSET = 0"

definition ACTION_REQUEST_CHECKBW :: santa_action_t where
  "ACTION_REQUEST_CHECKBW = 10"

definition ACTION_RESPOND_CHECKBW_ALLOW :: santa_action_t where
  "ACTION_RESPOND_CHECKBW_ALLOW = 11"

definition ACTION_RESPOND_CHECKBW_DENY :: santa_action_t where
  "ACTION_RESPOND_CHECKBW_DENY = 12"

definition ACTION_NOTIFY_EXEC :: santa_action_t where
  "ACTION_NOTIFY_EXEC = 20"

definition ACTION_NOTIFY_WRITE :: santa_action_t where
  "ACTION_NOTIFY_WRITE = 21"

definition ACTION_NOTIFY_RENAME :: santa_action_t where
  "ACTION_NOTIFY_RENAME = 22"

definition ACTION_NOTIFY_LINK :: santa_action_t where
  "ACTION_NOTIFY_LINK = 23"

definition ACTION_NOTIFY_EXCHANGE :: santa_action_t where
  "ACTION_NOTIFY_EXCHANGE = 24"

definition ACTION_NOTIFY_DELETE :: santa_action_t where
  "ACTION_NOTIFY_DELETE = 25"

definition ACTION_REQUEST_SHUTDOWN :: santa_action_t where
  "ACTION_REQUEST_SHUTDOWN = 90"

definition ACTION_ERROR :: santa_action_t where
  "ACTION_ERROR = 99"

text \<open>
  The enum groups its enumerators under the comments CHECKBW, NOTIFY, SHUTDOWN and
  ERROR; \<open>ACTION_UNSET\<close> stands before the first of them.
\<close>

definition UNSET_actions :: "santa_action_t list" where
  "UNSET_actions = [ACTION_UNSET]"

definition CHECKBW_actions :: "santa_action_t list" where
  "CHECKBW_actions =
     [ACTION_REQUEST_CHECKBW, ACTION_RESPOND_CHECKBW_ALLOW, ACTION_RESPOND_CHECKBW_DENY]"

definition NOTIFY_actions :: "santa_action_t list" where
  "NOTIFY_actions =
     [ACTION_NOTIFY_EXEC, ACTION_NOTIFY_WRITE, ACTION_NOTIFY_RENAME, ACTION_NOTIFY_LINK,
      ACTION_NOTIFY_EXCHANGE, ACTION_NOTIFY_DELETE]"

definition SHUTDOWN_actions :: "santa_action_t list" where
  "SHUTDOWN_actions = [ACTION_REQUEST_SHUTDOWN]"

definition ERROR_actions :: "santa_action_t list" where
  "ERROR_actions = [ACTION_ERROR]"

text \<open>All enumerators of \<^verbatim>\<open>santa_action_t\<close>, in the order of the declaration.\<close>

definition santa_action_enumerators :: "santa_action_t list" where
  "santa_action_enumerators =
     UNSET_actions @ CHECKBW_actions @ NOTIFY_actions @ SHUTDOWN_actions @ ERROR_actions"

text \<open>
  \<^verbatim>\<open>#define CHECKBW_RESPONSE_VALID(x)
    (x == ACTION_RESPOND_CHECKBW_ALLOW || x == ACTION_RESPOND_CHECKBW_DENY)\<close>
\<close>

definition CHECKBW_RESPONSE_VALID :: "santa_action_t \<Rightarrow> bool" where
  "CHECKBW_RESPONSE_VALID x \<longleftrightarrow>
     x = ACTION_RESPOND_CHECKBW_ALLOW \<or> x = ACTION_RESPOND_CHECKBW_DENY"


subsection \<open>Message struct that is sent down the data queue\<close>

text \<open>
  \<^verbatim>\<open>santa_message_t\<close>, field by field. \<^verbatim>\<open>uint64_t\<close> is a 64-bit unsigned word. The
  typedefs \<^verbatim>\<open>uid_t\<close>, \<^verbatim>\<open>gid_t\<close> and \<^verbatim>\<open>pid_t\<close> come from \<^verbatim>\<open><sys/types.h>\<close>, which is not
  part of the repository; they are 32 bits wide on the driver's platform. The two
  \<^verbatim>\<open>char\<close> arrays are byte lists.
\<close>

record santa_message_t =
  action :: santa_action_t
  vnode_id :: "64 word"
  uid :: "32 word"
  gid :: "32 word"
  pid :: "32 word"
  ppid :: "32 word"
  path :: "byte list"
  newpath :: "byte list"

text \<open>
  \<^verbatim>\<open>MAXPATHLEN\<close> is a macro of \<^verbatim>\<open><sys/param.h>\<close>, not of this header: it is a parameter
  of everything that depends on it. A value of the struct has both arrays of exactly
  that length, \<^verbatim>\<open>char path[MAXPATHLEN]\<close> and \<^verbatim>\<open>char newpath[MAXPATHLEN]\<close>.
\<close>

definition santa_message_wf :: "nat \<Rightarrow> santa_message_t \<Rightarrow> bool" where
  "santa_message_wf MAXPATHLEN m \<longleftrightarrow>
     length (path m) = MAXPATHLEN \<and> length (newpath m) = MAXPATHLEN"

text \<open>A zero-initialised struct (\<^verbatim>\<open>santa_message_t m = {}\<close>, or \<^verbatim>\<open>bzero\<close>).\<close>

definition santa_message_zero :: "nat \<Rightarrow> santa_message_t" where
  "santa_message_zero MAXPATHLEN =
     \<lparr>action = 0, vnode_id = 0, uid = 0, gid = 0, pid = 0, ppid = 0,
      path = replicate MAXPATHLEN 0, newpath = replicate MAXPATHLEN 0\<rparr>"

section \<open>The message codec and the authorization session of the specification\<close>

text \<open>
  The header only declares the wire contract. The codec and the session that use it
  live elsewhere in the repository; the definitions of this section follow the
  specification's description of them.
\<close>

subsection \<open>Errors\<close>

text \<open>
  Modelled from the spec: the error taxonomy of section 7 (no error type is declared in
  the header).
\<close>

datatype error =
  MalformedMessage | UnknownAction | ProtocolViolation | ChannelUnavailable | PathTooLong

subsection \<open>Integers on the wire\<close>

text \<open>
  Modelled from the spec: the fixed-width integer fields of the wire format of section
  6 (the header has no serialisation code). The specification fixes no byte order; the
  least significant byte comes first, as in the memory of the driver's platform.
  \<open>le_bytes n w\<close> are the \<open>n\<close> low bytes of \<open>w\<close>, and \<open>le_word\<close> reads them back.
\<close>

fun le_bytes :: "nat \<Rightarrow> 'a::len word \<Rightarrow> byte list" where
  "le_bytes 0 w = []"
| "le_bytes (Suc n) w = ucast w # le_bytes n (drop_bit 8 w)"

fun le_word :: "byte list \<Rightarrow> 'a::len word" where
  "le_word [] = 0"
| "le_word (b # bs) = ucast b + push_bit 8 (le_word bs)"

subsection \<open>Message codec\<close>

text \<open>
  Modelled from the spec: the fixed record size of sections 4.1 and 6 (the header has
  no codec). The fields follow each other in the order of the wire format: a 4-byte
  action tag, the 8-byte binary identity, uid, gid, pid and ppid of 4 bytes each, and
  the two path buffers of \<open>MAXPATHLEN\<close> bytes each.
\<close>

definition wire_size :: "nat \<Rightarrow> nat" where
  "wire_size MAXPATHLEN = 4 + 8 + 4 + 4 + 4 + 4 + MAXPATHLEN + MAXPATHLEN"

text \<open>
  Modelled from the spec: a path field on the wire, a fixed-capacity buffer (section
  6). A path shorter than the capacity is followed by NUL bytes.
\<close>

definition path_buffer :: "nat \<Rightarrow> byte list \<Rightarrow> byte list" where
  "path_buffer MAXPATHLEN p = p @ replicate (MAXPATHLEN - length p) 0"

text \<open>
  Modelled from the spec: \<open>encode\<close> of section 4.1 (the header has no codec). Of the
  two policies the specification allows for a path that exceeds the bound, this is the
  failing one: \<open>PathTooLong\<close>, never a truncated path.
\<close>

definition encode :: "nat \<Rightarrow> santa_message_t \<Rightarrow> error + byte list" where
  "encode MAXPATHLEN m =
     (if MAXPATHLEN < length (path m) \<or> MAXPATHLEN < length (newpath m) then Inl PathTooLong
      else Inr (le_bytes 4 (action m) @ le_bytes 8 (vnode_id m) @
                le_bytes 4 (uid m) @ le_bytes 4 (gid m) @
                le_bytes 4 (pid m) @ le_bytes 4 (ppid m) @
                path_buffer MAXPATHLEN (path m) @ path_buffer MAXPATHLEN (newpath m)))"

text \<open>
  Modelled from the spec: \<open>decode\<close> of section 4.1 (the header has no codec). It fails
  with \<open>MalformedMessage\<close> when the byte length is not the fixed record size, and with
  \<open>UnknownAction\<close> when the action tag is outside the enumerated set (section 4.2).
\<close>

definition decode :: "nat \<Rightarrow> byte list \<Rightarrow> error + santa_message_t" where
  "decode MAXPATHLEN b =
     (if length b \<noteq> wire_size MAXPATHLEN then Inl MalformedMessage
      else if le_word (take 4 b) \<notin> set santa_action_enumerators then Inl UnknownAction
      else Inr \<lparr>action = le_word (take 4 b),
                vnode_id = le_word (take 8 (drop 4 b)),
                uid = le_word (take 4 (drop 12 b)),
                gid = le_word (take 4 (drop 16 b)),
                pid = le_word (take 4 (drop 20 b)),
                ppid = le_word (take 4 (drop 24 b)),
                path = take MAXPATHLEN (drop 28 b),
                newpath = take MAXPATHLEN (drop (28 + MAXPATHLEN) b)\<rparr>)"

subsection \<open>Authorization session\<close>

text \<open>
  Modelled from the spec: the verdict, the states of the authorization session
  (section 4.4) and the decision cache (section 4.3, a table from binary identity to
  verdict); none of them is declared in the header.
\<close>

datatype verdict = Allow | Deny

datatype session =
  Idle | CacheChecking | Decided verdict | RequestPending "64 word" | Resolved verdict |
  Terminated

type_synonym decision_cache = "64 word \<rightharpoonup> verdict"

text \<open>
  Modelled from the spec: the verdict extracted from a valid response (section 4.4);
  it is applied only to actions that pass \<open>CHECKBW_RESPONSE_VALID\<close>.
\<close>

definition response_verdict :: "santa_action_t \<Rightarrow> verdict" where
  "response_verdict a = (if a = ACTION_RESPOND_CHECKBW_ALLOW then Allow else Deny)"

text \<open>
  Modelled from the spec: the dispatch of a message that arrives at a session (the
  transition from \<open>RequestPending\<close> to \<open>Resolved\<close> of section 4.4, with the error
  handling of section 7); the header holds no session code. The
  result is the error that is logged, if any, the next state of the session, and the
  decision cache.
  \<^item> A message that does not decode with \<open>UnknownAction\<close> fails the session to the
    fail-safe verdict; no cache entry is written.
  \<^item> A message that does not decode for another reason is dropped.
  \<^item> A message for another binary identity is not an answer to this session.
  \<^item> A message for this identity that is exactly allow or deny resolves the session
    with that verdict, and \<open>recordVerdict\<close> stores it in the cache.
  \<^item> Any other action for this identity is a \<open>ProtocolViolation\<close>: the message is
    ignored.
  A session that is not in \<open>RequestPending\<close> awaits no message.
\<close>

fun session_receive ::
  "verdict \<Rightarrow> nat \<Rightarrow> session \<times> decision_cache \<Rightarrow> byte list \<Rightarrow>
     error option \<times> session \<times> decision_cache" where
  "session_receive failsafe MAXPATHLEN (RequestPending I, cache) b =
     (case decode MAXPATHLEN b of
        Inl e \<Rightarrow>
          if e = UnknownAction then (Some e, Resolved failsafe, cache)
          else (Some e, RequestPending I, cache)
      | Inr m \<Rightarrow>
          if vnode_id m \<noteq> I then (None, RequestPending I, cache)
          else if CHECKBW_RESPONSE_VALID (action m)
          then (None, Resolved (response_verdict (action m)),
                cache(I \<mapsto> response_verdict (action m)))
          else (Some ProtocolViolation, RequestPending I, cache))"
| "session_receive failsafe MAXPATHLEN (s, cache) b = (None, s, cache)"

section \<open>Unfolding rules\<close>

lemmas action_defs =
  ACTION_UNSET_def ACTION_REQUEST_CHECKBW_def ACTION_RESPOND_CHECKBW_ALLOW_def
  ACTION_RESPOND_CHECKBW_DENY_def ACTION_NOTIFY_EXEC_def ACTION_NOTIFY_WRITE_def
  ACTION_NOTIFY_RENAME_def ACTION_NOTIFY_LINK_def ACTION_NOTIFY_EXCHANGE_def
  ACTION_NOTIFY_DELETE_def ACTION_REQUEST_SHUTDOWN_def ACTION_ERROR_def

lemmas family_defs =
  UNSET_actions_def CHECKBW_actions_def NOTIFY_actions_def SHUTDOWN_actions_def
  ERROR_actions_def

lemmas method_defs =
  kSantaUserClientOpen_def kSantaUserClientAllowBinary_def kSantaUserClientDenyBinary_def
  kSantaUserClientClearCache_def kSantaUserClientCacheCount_def
  kSantaUserClientNMethods_def

section \<open>Properties of the enumerations\<close>

lemma santa_action_enumerators_eq:
  "santa_action_enumerators = [0, 10, 11, 12, 20, 21, 22, 23, 24, 25, 90, 99]"
  by (simp add: santa_action_enumerators_def family_defs action_defs)

text \<open>
  C1. For every action tag \<open>x\<close>, \<open>CHECKBW_RESPONSE_VALID x\<close> holds if and only if \<open>x\<close> is
  \<open>ACTION_RESPOND_CHECKBW_ALLOW\<close> or \<open>ACTION_RESPOND_CHECKBW_DENY\<close>: it holds for the two
  responses and fails for each of the ten other enumerated tags, among them
  \<open>ACTION_NOTIFY_EXEC\<close>, \<open>ACTION_REQUEST_CHECKBW\<close>, \<open>ACTION_UNSET\<close>,
  \<open>ACTION_REQUEST_SHUTDOWN\<close> and \<open>ACTION_ERROR\<close>.
\<close>

theorem CHECKBW_RESPONSE_VALID_iff:
  "(CHECKBW_RESPONSE_VALID x \<longleftrightarrow>
      x \<in> {ACTION_RESPOND_CHECKBW_ALLOW, ACTION_RESPOND_CHECKBW_DENY}) \<and>
   CHECKBW_RESPONSE_VALID ACTION_RESPOND_CHECKBW_ALLOW \<and>
   CHECKBW_RESPONSE_VALID ACTION_RESPOND_CHECKBW_DENY \<and>
   \<not> CHECKBW_RESPONSE_VALID ACTION_UNSET \<and>
   \<not> CHECKBW_RESPONSE_VALID ACTION_REQUEST_CHECKBW \<and>
   \<not> CHECKBW_RESPONSE_VALID ACTION_NOTIFY_EXEC \<and>
   \<not> CHECKBW_RESPONSE_VALID ACTION_NOTIFY_WRITE \<and>
   \<not> CHECKBW_RESPONSE_VALID ACTION_NOTIFY_RENAME \<and>
   \<not> CHECKBW_RESPONSE_VALID ACTION_NOTIFY_LINK \<and>
   \<not> CHECKBW_RESPONSE_VALID ACTION_NOTIFY_EXCHANGE \<and>
   \<not> CHECKBW_RESPONSE_VALID ACTION_NOTIFY_DELETE \<and>
   \<not> CHECKBW_RESPONSE_VALID ACTION_REQUEST_SHUTDOWN \<and>
   \<not> CHECKBW_RESPONSE_VALID ACTION_ERROR \<and>
   filter CHECKBW_RESPONSE_VALID santa_action_enumerators =
     [ACTION_RESPOND_CHECKBW_ALLOW, ACTION_RESPOND_CHECKBW_DENY]"
  by (simp add: CHECKBW_RESPONSE_VALID_def santa_action_enumerators_def family_defs
      action_defs)

text \<open>
  C2. The tag values are grouped by family into fixed integer ranges: the three
  request/response tags lie in 10..19, the six notify tags lie in 20..29, the shutdown
  tag lies in 90..99, and the error tag equals 99. The three ranges are pairwise
  disjoint, and no tag value belongs to two families.
\<close>

theorem santa_action_family_ranges:
  "list_all (\<lambda>x. sint x \<in> {10..19}) CHECKBW_actions \<and>
   CHECKBW_actions =
     [ACTION_REQUEST_CHECKBW, ACTION_RESPOND_CHECKBW_ALLOW, ACTION_RESPOND_CHECKBW_DENY] \<and>
   list_all (\<lambda>x. sint x \<in> {20..29}) NOTIFY_actions \<and>
   NOTIFY_actions =
     [ACTION_NOTIFY_EXEC, ACTION_NOTIFY_WRITE, ACTION_NOTIFY_RENAME, ACTION_NOTIFY_LINK,
      ACTION_NOTIFY_EXCHANGE, ACTION_NOTIFY_DELETE] \<and>
   sint ACTION_REQUEST_SHUTDOWN \<in> {90..99} \<and>
   sint ACTION_ERROR = 99 \<and>
   {10..19} \<inter> {20..29} = ({} :: int set) \<and>
   {10..19} \<inter> {90..99} = ({} :: int set) \<and>
   {20..29} \<inter> {90..99} = ({} :: int set) \<and>
   distinct (map sint (CHECKBW_actions @ NOTIFY_actions @ SHUTDOWN_actions @ ERROR_actions))"
  by (simp add: family_defs action_defs)

text \<open>
  C3. The five control operations have the consecutive method ids 0, 1, 2, 3, 4 in the
  order open, allow-binary, deny-binary, clear-cache, cache-count, and
  \<open>kSantaUserClientNMethods\<close> is 5, the number of these operations.
\<close>

theorem SantaDriverMethods_ordinals:
  "kSantaUserClientOpen = 0 \<and>
   kSantaUserClientAllowBinary = 1 \<and>
   kSantaUserClientDenyBinary = 2 \<and>
   kSantaUserClientClearCache = 3 \<and>
   kSantaUserClientCacheCount = 4 \<and>
   kSantaUserClientNMethods = 5 \<and>
   map unat SantaDriverMethods = [0 ..< length SantaDriverMethods] \<and>
   unat kSantaUserClientNMethods = length SantaDriverMethods"
  by (simp add: SantaDriverMethods_def method_defs upt_rec)

text \<open>
  C9. The twelve enumerators of \<^verbatim>\<open>santa_action_t\<close> have pairwise distinct values, so
  a tag names one action only, the five families (UNSET, CHECKBW, NOTIFY, SHUTDOWN,
  ERROR) partition the enumerators and the family of a tag is determined by the tag;
  and \<open>ACTION_UNSET\<close> is 0, so a zero-initialised message carries \<open>ACTION_UNSET\<close>.
\<close>

theorem santa_action_enumerators_distinct:
  "length santa_action_enumerators = 12 \<and>
   distinct santa_action_enumerators \<and>
   distinct (map sint santa_action_enumerators) \<and>
   distinct
     (UNSET_actions @ CHECKBW_actions @ NOTIFY_actions @ SHUTDOWN_actions @ ERROR_actions) \<and>
   set santa_action_enumerators =
     set UNSET_actions \<union> set CHECKBW_actions \<union> set NOTIFY_actions \<union>
     set SHUTDOWN_actions \<union> set ERROR_actions \<and>
   ACTION_UNSET = 0 \<and> sint ACTION_UNSET = 0 \<and>
   action (santa_message_zero MAXPATHLEN) = ACTION_UNSET"
proof -
  have "set santa_action_enumerators =
     set UNSET_actions \<union> set CHECKBW_actions \<union> set NOTIFY_actions \<union>
     set SHUTDOWN_actions \<union> set ERROR_actions"
    by (simp add: santa_action_enumerators_def Un_assoc)
  moreover have "distinct
     (UNSET_actions @ CHECKBW_actions @ NOTIFY_actions @ SHUTDOWN_actions @ ERROR_actions)"
    by (simp add: family_defs action_defs)
  moreover have "length santa_action_enumerators = 12"
    and "distinct santa_action_enumerators"
    and "distinct (map sint santa_action_enumerators)"
    by (simp_all add: santa_action_enumerators_eq)
  moreover have "action (santa_message_zero MAXPATHLEN) = ACTION_UNSET"
    by (simp add: santa_message_zero_def ACTION_UNSET_def)
  ultimately show ?thesis by (simp add: ACTION_UNSET_def)
qed

section \<open>Properties of the vnode id string length\<close>

lemma length_decimal: "n < 10 ^ Suc k \<Longrightarrow> length (decimal n) \<le> Suc k"
proof (induction k arbitrary: n)
  case 0
  then show ?case by (simp add: decimal.simps [of n])
next
  case (Suc k)
  show ?case
  proof (cases "n < 10")
    case True
    then show ?thesis by (simp add: decimal.simps [of n])
  next
    case False
    from Suc.prems have "n < 10 ^ Suc k * 10" by (simp add: mult.commute)
    then have "n div 10 < 10 ^ Suc k" by (rule less_mult_imp_div_less)
    then have "length (decimal (n div 10)) \<le> Suc k" by (rule Suc.IH)
    with False show ?thesis by (simp add: decimal.simps [of n])
  qed
qed

lemma length_decimal_uint64: "length (decimal (unat (v :: 64 word))) \<le> 20"
proof -
  have "unat v < 2 ^ 64" using unsigned_less [of v] by simp
  also have "(2 :: nat) ^ 64 < 10 ^ 20" by simp
  finally have "unat v < 10 ^ Suc 19" by simp
  then have "length (decimal (unat v)) \<le> Suc 19" by (rule length_decimal)
  then show ?thesis by simp
qed

lemma length_decimal_UINT64_MAX: "length (decimal (unat UINT64_MAX)) = 20"
  by (simp add: UINT64_MAX_def decimal.simps)

text \<open>
  C10. \<open>MAX_VNODE_ID_STR\<close> is 21: the 20 decimal digits of \<open>UINT64_MAX\<close>, the largest
  64-bit value, plus one byte for the NUL terminator. Hence the decimal string of every
  64-bit vnode id, with its terminator, fits in \<open>MAX_VNODE_ID_STR\<close> bytes.
\<close>

theorem MAX_VNODE_ID_STR_fits:
  "MAX_VNODE_ID_STR = 21 \<and>
   v \<le> UINT64_MAX \<and>
   length (decimal (unat UINT64_MAX)) = 20 \<and>
   MAX_VNODE_ID_STR = length (decimal (unat UINT64_MAX)) + 1 \<and>
   length (decimal (unat (v :: 64 word))) + 1 \<le> MAX_VNODE_ID_STR"
proof -
  have "UINT64_MAX = - 1" by (simp add: UINT64_MAX_def)
  moreover have "v \<le> - 1" by (rule word_n1_ge)
  ultimately have "v \<le> UINT64_MAX" by (simp only:)
  moreover have "length (decimal (unat v)) + 1 \<le> 21"
    using length_decimal_uint64 [of v] by simp
  ultimately show ?thesis
    by (simp add: MAX_VNODE_ID_STR_def length_decimal_UINT64_MAX)
qed

section \<open>Properties of the message codec\<close>

lemma length_le_bytes [simp]: "length (le_bytes n w) = n"
  by (induction n arbitrary: w) simp_all

lemma le_bytes_numeral:
  "le_bytes (numeral k) w = ucast w # le_bytes (pred_numeral k) (drop_bit 8 w)"
  by (simp add: numeral_eq_Suc)

lemma le_word_step:
  "(ucast (ucast w :: byte) :: 'a::len word) + push_bit 8 (take_bit k (drop_bit 8 w)) =
     take_bit (8 + k) w"
proof -
  have "(ucast (ucast w :: byte) :: 'a word) = take_bit 8 w"
    by (rule bit_word_eqI) (auto simp: bit_simps)
  moreover have "take_bit 8 w + push_bit 8 (take_bit k (drop_bit 8 w)) =
      take_bit 8 w OR push_bit 8 (take_bit k (drop_bit 8 w))"
    by (rule disjunctive_add) (auto simp: bit_simps)
  moreover have "take_bit 8 w OR push_bit 8 (take_bit k (drop_bit 8 w)) = take_bit (8 + k) w"
    by (rule bit_word_eqI) (auto simp: bit_simps)
  ultimately show ?thesis by simp
qed

lemma le_word_le_bytes: "le_word (le_bytes n w) = take_bit (8 * n) w"
proof (induction n arbitrary: w)
  case 0
  show ?case by simp
next
  case (Suc n)
  show ?case by (simp add: Suc le_word_step)
qed

lemma le_word_le_bytes_32 [simp]: "le_word (le_bytes 4 w) = (w :: 32 word)"
  by (simp only: le_word_le_bytes) (simp add: take_bit_word_eq_self)

lemma le_word_le_bytes_64 [simp]: "le_word (le_bytes 8 w) = (w :: 64 word)"
  by (simp only: le_word_le_bytes) (simp add: take_bit_word_eq_self)

lemma length_path_buffer: "length p \<le> n \<Longrightarrow> length (path_buffer n p) = n"
  by (simp add: path_buffer_def)

lemma path_buffer_full: "length p = n \<Longrightarrow> path_buffer n p = p"
  by (simp add: path_buffer_def)




lemma encode_Inr:
  assumes "encode L m = Inr b"
  shows "length (path m) \<le> L" and "length (newpath m) \<le> L"
    and "b = le_bytes 4 (action m) @ le_bytes 8 (vnode_id m) @
             le_bytes 4 (uid m) @ le_bytes 4 (gid m) @
             le_bytes 4 (pid m) @ le_bytes 4 (ppid m) @
             path_buffer L (path m) @ path_buffer L (newpath m)"
  using assms by (auto simp: encode_def split: if_splits)

lemma encode_length: "encode L m = Inr b \<Longrightarrow> length b = wire_size L"
  by (auto simp: encode_def wire_size_def length_path_buffer split: if_splits)


lemma encode_action: "encode L m = Inr b \<Longrightarrow> le_word (take 4 b) = action m"
  using encode_Inr(3) [of L m b] by simp

text \<open>
  What \<open>decode\<close> reads back from an encoding: every field as it was, each path in its
  buffer. The bytes of a path of any length up to the bound, NUL bytes among them, come
  back unchanged at the front of the buffer.
\<close>

lemma decoded_fields:
  assumes "encode L m = Inr b" and "action m \<in> set santa_action_enumerators"
  shows "decode L b =
    Inr (m\<lparr>path := path_buffer L (path m), newpath := path_buffer L (newpath m)\<rparr>)"
proof -
  note len = encode_Inr(1,2) [OF assms(1)] and b = encode_Inr(3) [OF assms(1)]
  have "length b = wire_size L" using assms(1) by (rule encode_length)
  moreover have "le_word (take 4 b) = action m" using assms(1) by (rule encode_action)
  moreover have "le_word (take 8 (drop 4 b)) = vnode_id m" by (simp add: b)
  moreover have "le_word (take 4 (drop 12 b)) = uid m" by (simp add: b)
  moreover have "le_word (take 4 (drop 16 b)) = gid m" by (simp add: b)
  moreover have "le_word (take 4 (drop 20 b)) = pid m" by (simp add: b)
  moreover have "le_word (take 4 (drop 24 b)) = ppid m" by (simp add: b)
  moreover have "take L (drop 28 b) = path_buffer L (path m)"
    using len by (simp add: b length_path_buffer)
  moreover have "take L (drop (28 + L) b) = path_buffer L (newpath m)"
    using len by (simp add: b length_path_buffer)
  ultimately show ?thesis using assms(2) by (simp add: decode_def)
qed

lemma decode_unknown:
  assumes "encode L m = Inr b" and "action m \<notin> set santa_action_enumerators"
  shows "decode L b = Inl UnknownAction"
  using assms by (simp add: decode_def encode_length encode_action)

text \<open>
  C4. A message is a record of exactly eight fields: the action tag, the 64-bit unsigned
  vnode id, uid, gid, pid, ppid, and the two path buffers \<open>path\<close> and \<open>newpath\<close>, both
  of the fixed capacity \<open>MAXPATHLEN\<close>. Two messages that agree on these fields are the
  same message. Every message encodes to the same number of bytes, \<open>wire_size
  MAXPATHLEN\<close>, which depends on nothing but \<open>MAXPATHLEN\<close>.
\<close>

theorem santa_message_t_fixed_size:
  "(m = m' \<longleftrightarrow>
      action m = action m' \<and> vnode_id m = vnode_id m' \<and> uid m = uid m' \<and>
      gid m = gid m' \<and> pid m = pid m' \<and> ppid m = ppid m' \<and>
      path m = path m' \<and> newpath m = newpath m') \<and>
   size (vnode_id m) = 64 \<and> 0 \<le> uint (vnode_id m) \<and> uint (vnode_id m) < 2 ^ 64 \<and>
   (santa_message_wf MAXPATHLEN m \<longrightarrow>
      length (path m) = MAXPATHLEN \<and> length (newpath m) = MAXPATHLEN \<and>
      (\<exists>b. encode MAXPATHLEN m = Inr b)) \<and>
   (\<forall>b. encode MAXPATHLEN m = Inr b \<longrightarrow> length b = wire_size MAXPATHLEN)"
proof -
  have "m = m' \<longleftrightarrow>
      action m = action m' \<and> vnode_id m = vnode_id m' \<and> uid m = uid m' \<and>
      gid m = gid m' \<and> pid m = pid m' \<and> ppid m = ppid m' \<and>
      path m = path m' \<and> newpath m = newpath m'"
    by (cases m, cases m') auto
  moreover have "size (vnode_id m) = 64" by (simp add: word_size)
  moreover have "uint (vnode_id m) < 2 ^ 64" using uint_bounded [of "vnode_id m"] by simp
  moreover have "santa_message_wf MAXPATHLEN m \<longrightarrow>
      length (path m) = MAXPATHLEN \<and> length (newpath m) = MAXPATHLEN \<and>
      (\<exists>b. encode MAXPATHLEN m = Inr b)"
    by (simp add: santa_message_wf_def encode_def)
  moreover have "\<forall>b. encode MAXPATHLEN m = Inr b \<longrightarrow> length b = wire_size MAXPATHLEN"
    by (simp add: encode_length)
  ultimately show ?thesis by simp
qed

theorem santa_message_t_fixed_size_witness:
  "santa_message_wf 2
     \<lparr>action = ACTION_NOTIFY_RENAME, vnode_id = 77, uid = 501, gid = 20, pid = 4242,
      ppid = 1, path = [47, 97], newpath = [47, 0]\<rparr> \<and>
   encode 2
     \<lparr>action = ACTION_NOTIFY_RENAME, vnode_id = 77, uid = 501, gid = 20, pid = 4242,
      ppid = 1, path = [47, 97], newpath = [47, 0]\<rparr> =
     Inr [22, 0, 0, 0, 77, 0, 0, 0, 0, 0, 0, 0, 245, 1, 0, 0, 20, 0, 0, 0, 146, 16, 0, 0,
          1, 0, 0, 0, 47, 97, 47, 0] \<and>
   length [22, 0, 0, 0, 77, 0, 0, 0, 0, 0, 0, 0, 245, 1, 0, 0, 20, 0, 0, 0, 146, 16, 0, 0,
          1, 0, 0, 0, 47, 97, 47, 0 :: byte] = wire_size 2"
  using santa_message_t_fixed_size
    [of "\<lparr>action = ACTION_NOTIFY_RENAME, vnode_id = 77, uid = 501, gid = 20, pid = 4242,
          ppid = 1, path = [47, 97], newpath = [47, 0]\<rparr>" _ 2]
  by (simp add: santa_message_wf_def encode_def le_bytes_numeral path_buffer_def
      ACTION_NOTIFY_RENAME_def)




text \<open>
  C8. For every byte sequence whose length differs from the fixed record size,
  \<open>decode\<close> fails with \<open>MalformedMessage\<close>; whenever \<open>decode\<close> returns a message, the
  input had exactly the fixed record size.
\<close>

theorem decode_length:
  "(length b \<noteq> wire_size MAXPATHLEN \<longrightarrow> decode MAXPATHLEN b = Inl MalformedMessage) \<and>
   (\<forall>m. decode MAXPATHLEN b = Inr m \<longrightarrow> length b = wire_size MAXPATHLEN)"
  by (simp add: decode_def)

theorem decode_length_witness:
  "length [11, 0, 0, 0, 5 :: byte] \<noteq> wire_size 2 \<and>
   decode 2 [11, 0, 0, 0, 5] = Inl MalformedMessage \<and>
   decode 2 [11, 0, 0, 0, 5, 0, 0, 0, 0, 0, 0, 0, 0, 0, 0, 0, 0, 0, 0, 0, 7, 0, 0, 0,
             1, 0, 0, 0, 47, 0, 0, 0] =
     Inr \<lparr>action = ACTION_RESPOND_CHECKBW_ALLOW, vnode_id = 5, uid = 0, gid = 0, pid = 7,
          ppid = 1, path = [47, 0], newpath = [0, 0]\<rparr> \<and>
   length [11, 0, 0, 0, 5, 0, 0, 0, 0, 0, 0, 0, 0, 0, 0, 0, 0, 0, 0, 0, 7, 0, 0, 0,
             1, 0, 0, 0, 47, 0, 0, 0 :: byte] = wire_size 2"
  using decode_length [of "[11, 0, 0, 0, 5]" 2]
    decode_length [of "[11, 0, 0, 0, 5, 0, 0, 0, 0, 0, 0, 0, 0, 0, 0, 0, 0, 0, 0, 0, 7, 0,
                        0, 0, 1, 0, 0, 0, 47, 0, 0, 0]" 2]
  by (simp add: decode_def wire_size_def santa_action_enumerators_eq
      ACTION_RESPOND_CHECKBW_ALLOW_def)

section \<open>Properties of the authorization session\<close>

lemma CHECKBW_RESPONSE_VALID_enumerated:
  "CHECKBW_RESPONSE_VALID x \<Longrightarrow> x \<in> set santa_action_enumerators"
  by (auto simp: CHECKBW_RESPONSE_VALID_def santa_action_enumerators_eq action_defs)

text \<open>
  The session is resolved by a valid response for its own identity: the other branch
  of the comparison of identities.
\<close>

lemma response_same_identity:
  assumes "CHECKBW_RESPONSE_VALID (action r)" and "encode L r = Inr b"
  shows "session_receive failsafe L (RequestPending (vnode_id r), cache) b =
    (None, Resolved (response_verdict (action r)),
     cache(vnode_id r \<mapsto> response_verdict (action r)))"
  using assms
    decoded_fields [OF assms(2) CHECKBW_RESPONSE_VALID_enumerated [OF assms(1)]]
  by simp

text \<open>
  C6. While a session is pending on the binary identity \<open>I\<close>, a response (allow or
  deny) that carries another identity does not resolve it: the session is still pending
  on \<open>I\<close> afterwards and the cache is as it was. More generally a response changes no
  session that is not pending on the response's identity, so a response that matches
  no outstanding request resolves no caller.
\<close>

theorem response_other_identity:
  assumes "CHECKBW_RESPONSE_VALID (action r)" and "encode MAXPATHLEN r = Inr b"
  shows "(I \<noteq> vnode_id r \<longrightarrow>
            session_receive failsafe MAXPATHLEN (RequestPending I, cache) b =
              (None, RequestPending I, cache)) \<and>
         (s \<noteq> RequestPending (vnode_id r) \<longrightarrow>
            session_receive failsafe MAXPATHLEN (s, cache) b = (None, s, cache))"
proof -
  have dec: "decode MAXPATHLEN b =
      Inr (r\<lparr>path := path_buffer MAXPATHLEN (path r),
             newpath := path_buffer MAXPATHLEN (newpath r)\<rparr>)"
    using assms(2) CHECKBW_RESPONSE_VALID_enumerated [OF assms(1)]
    by (rule decoded_fields)
  have other: "session_receive failsafe MAXPATHLEN (RequestPending K, cache) b =
      (None, RequestPending K, cache)" if "K \<noteq> vnode_id r" for K
    using that dec by simp
  have "session_receive failsafe MAXPATHLEN (s, cache) b = (None, s, cache)"
    if "s \<noteq> RequestPending (vnode_id r)"
  proof (cases s)
    case (RequestPending K)
    with that have "K \<noteq> vnode_id r" by auto
    then show ?thesis using RequestPending other by simp
  qed simp_all
  with other show ?thesis by blast
qed

theorem response_other_identity_witness:
  "CHECKBW_RESPONSE_VALID ACTION_RESPOND_CHECKBW_ALLOW \<and>
   encode 2
     \<lparr>action = ACTION_RESPOND_CHECKBW_ALLOW, vnode_id = 5, uid = 0, gid = 0, pid = 7,
      ppid = 1, path = [47, 0], newpath = [0, 0]\<rparr> =
     Inr [11, 0, 0, 0, 5, 0, 0, 0, 0, 0, 0, 0, 0, 0, 0, 0, 0, 0, 0, 0, 7, 0, 0, 0,
          1, 0, 0, 0, 47, 0, 0, 0] \<and>
   (9 :: 64 word) \<noteq> 5 \<and>
   session_receive Deny 2 (RequestPending 9, Map.empty)
     [11, 0, 0, 0, 5, 0, 0, 0, 0, 0, 0, 0, 0, 0, 0, 0, 0, 0, 0, 0, 7, 0, 0, 0,
      1, 0, 0, 0, 47, 0, 0, 0] = (None, RequestPending 9, Map.empty) \<and>
   Idle \<noteq> RequestPending 5 \<and>
   session_receive Deny 2 (Idle, Map.empty)
     [11, 0, 0, 0, 5, 0, 0, 0, 0, 0, 0, 0, 0, 0, 0, 0, 0, 0, 0, 0, 7, 0, 0, 0,
      1, 0, 0, 0, 47, 0, 0, 0] = (None, Idle, Map.empty)"
proof -
  let ?r = "\<lparr>action = ACTION_RESPOND_CHECKBW_ALLOW, vnode_id = 5, uid = 0, gid = 0, pid = 7,
      ppid = 1, path = [47, 0], newpath = [0, 0]\<rparr>"
  let ?b = "[11, 0, 0, 0, 5, 0, 0, 0, 0, 0, 0, 0, 0, 0, 0, 0, 0, 0, 0, 0, 7, 0, 0, 0,
      1, 0, 0, 0, 47, 0, 0, 0 :: byte]"
  have v: "CHECKBW_RESPONSE_VALID (action ?r)"
    by (simp add: CHECKBW_RESPONSE_VALID_def)
  have e: "encode 2 ?r = Inr ?b"
    by (simp add: encode_def le_bytes_numeral path_buffer_def
        ACTION_RESPOND_CHECKBW_ALLOW_def)
  from response_other_identity [OF v e, of 9 Deny Map.empty Idle] v e
  show ?thesis by simp
qed

text \<open>
  C7. A message whose action tag is outside the enumerated set is rejected: \<open>decode\<close>
  fails with \<open>UnknownAction\<close>, a session that receives it while pending logs
  \<open>UnknownAction\<close> and fails to the fail-safe verdict without writing a cache entry,
  and the tag is never taken for a valid response.
\<close>

theorem unknown_action_rejected:
  assumes "action m \<notin> set santa_action_enumerators" and "encode MAXPATHLEN m = Inr b"
  shows "decode MAXPATHLEN b = Inl UnknownAction \<and>
         session_receive failsafe MAXPATHLEN (RequestPending I, cache) b =
           (Some UnknownAction, Resolved failsafe, cache) \<and>
         \<not> CHECKBW_RESPONSE_VALID (action m)"
proof -
  have "decode MAXPATHLEN b = Inl UnknownAction"
    using assms(2,1) by (rule decode_unknown)
  moreover have "\<not> CHECKBW_RESPONSE_VALID (action m)"
    using assms(1) CHECKBW_RESPONSE_VALID_enumerated by blast
  ultimately show ?thesis by simp
qed

theorem unknown_action_rejected_witness:
  "(13 :: santa_action_t) \<notin> set santa_action_enumerators \<and>
   encode 2
     \<lparr>action = 13, vnode_id = 5, uid = 0, gid = 0, pid = 7, ppid = 1, path = [47, 0],
      newpath = [0, 0]\<rparr> =
     Inr [13, 0, 0, 0, 5, 0, 0, 0, 0, 0, 0, 0, 0, 0, 0, 0, 0, 0, 0, 0, 7, 0, 0, 0,
          1, 0, 0, 0, 47, 0, 0, 0] \<and>
   decode 2
     [13, 0, 0, 0, 5, 0, 0, 0, 0, 0, 0, 0, 0, 0, 0, 0, 0, 0, 0, 0, 7, 0, 0, 0,
      1, 0, 0, 0, 47, 0, 0, 0] = Inl UnknownAction \<and>
   session_receive Deny 2 (RequestPending 5, Map.empty)
     [13, 0, 0, 0, 5, 0, 0, 0, 0, 0, 0, 0, 0, 0, 0, 0, 0, 0, 0, 0, 7, 0, 0, 0,
      1, 0, 0, 0, 47, 0, 0, 0] = (Some UnknownAction, Resolved Deny, Map.empty) \<and>
   \<not> CHECKBW_RESPONSE_VALID 13"
proof -
  let ?m = "\<lparr>action = 13, vnode_id = 5, uid = 0, gid = 0, pid = 7, ppid = 1,
      path = [47, 0], newpath = [0, 0]\<rparr>"
  let ?b = "[13, 0, 0, 0, 5, 0, 0, 0, 0, 0, 0, 0, 0, 0, 0, 0, 0, 0, 0, 0, 7, 0, 0, 0,
      1, 0, 0, 0, 47, 0, 0, 0 :: byte]"
  have a: "action ?m \<notin> set santa_action_enumerators"
    by (simp add: santa_action_enumerators_eq)
  have e: "encode 2 ?m = Inr ?b"
    by (simp add: encode_def le_bytes_numeral path_buffer_def)
  from unknown_action_rejected [OF a e, of Deny 5 Map.empty] a e
  show ?thesis by simp
qed

end
